theory Spec2Isabelle
  imports Complex_Main
begin

section \<open>The data warehouse of the PE data analysis application\<close>

text \<open>
  This theory embeds the class \<open>DataWarehouse\<close> of \<open>app.py\<close>: the ingestion of a folder
  (\<open>process_all_data\<close> and its helpers), the dataset describer, and the query functions
  (\<open>search\<close>, \<open>ask_structured_data\<close>, \<open>ask_documents\<close>, \<open>ask_unified\<close>).

  Conventions.
  \<^item> A Python \<open>str\<close> is a \<open>string\<close>. The two characters of the source outside ASCII (the
    multiplication sign and the page emoji) are written as their UTF-8 bytes.
  \<^item> An exception is the value \<open>Inl e\<close> of a sum, \<open>e\<close> being \<open>str(e)\<close>; only exceptions of
    class \<open>Exception\<close> are modelled, which is what every \<open>except\<close> clause of the source
    catches.
  \<^item> The libraries the class calls (the file system, pandas readers and formatters, PyPDF2,
    python-docx, the text splitter, Chroma, the LangChain agent and chain, the OpenAI client)
    are not part of the program. They are the fields of the record \<open>env\<close>, and every
    function of the model takes the \<open>env\<close> it runs in.
  \<^item> The Streamlit calls (\<open>st.error\<close>, \<open>st.warning\<close>, the progress bar) only draw on the page
    and are left out.
\<close>

subsection \<open>Strings\<close>

definition nl :: string where
  "nl = [CHR 0x0A]"

definition tab :: string where
  "tab = [CHR 0x09]"

definition times_sign :: string where
  "times_sign = [CHR 0xC3, CHR 0x97]"


definition startswith :: "string \<Rightarrow> string \<Rightarrow> bool" where
  "startswith s p = (take (length p) s = p)"

definition endswith :: "string \<Rightarrow> string \<Rightarrow> bool" where
  "endswith s suf = (length suf \<le> length s \<and> drop (length s - length suf) s = suf)"

fun str_join :: "string \<Rightarrow> string list \<Rightarrow> string" where
  "str_join sep [] = []"
| "str_join sep [x] = x"
| "str_join sep (x # y # ys) = x @ sep @ str_join sep (y # ys)"

definition digit_char :: "nat \<Rightarrow> char" where
  "digit_char d = ''0123456789'' ! d"

fun str_nat :: "nat \<Rightarrow> string" where
  "str_nat n = (if n < 10 then [digit_char n] else str_nat (n div 10) @ [digit_char (n mod 10)])"

declare str_nat.simps [simp del]

definition os_path_join :: "string \<Rightarrow> string \<Rightarrow> string" where
  "os_path_join a b =
     (if startswith b ''/'' then b
      else if a = [] \<or> endswith a ''/'' then a @ b
      else a @ ''/'' @ b)"

subsection \<open>Exceptions\<close>

type_synonym exn = string

definition try_except :: "exn + 'a \<Rightarrow> (exn \<Rightarrow> exn + 'a) \<Rightarrow> exn + 'a" where
  "try_except body handler = (case body of Inl e \<Rightarrow> handler e | Inr v \<Rightarrow> Inr v)"

subsection \<open>Tables\<close>

text \<open>
  A pandas \<open>DataFrame\<close>: its columns in order, each with its label, its dtype and its cells
  (\<open>None\<close> is a missing cell), and the length of its index (\<open>len(df)\<close>). The values of
  the cells are of a type \<open>'v\<close> the model never looks into. Column labels are strings and
  pairwise different, and the dtypes are those the pandas readers infer; \<open>is_number\<close> tells
  which of them \<open>select_dtypes(include=[np.number])\<close> selects.
\<close>

datatype dtype = Int64 | Float64 | Bool | Object | Datetime64

fun dtype_name :: "dtype \<Rightarrow> string" where
  "dtype_name Int64 = ''int64''"
| "dtype_name Float64 = ''float64''"
| "dtype_name Bool = ''bool''"
| "dtype_name Object = ''object''"
| "dtype_name Datetime64 = ''datetime64[ns]''"

fun is_number :: "dtype \<Rightarrow> bool" where
  "is_number Int64 = True"
| "is_number Float64 = True"
| "is_number Bool = False"
| "is_number Object = False"
| "is_number Datetime64 = False"

record 'v column =
  col_name :: string
  col_dtype :: dtype
  col_cells :: "'v option list"

record 'v dataframe =
  df_len :: nat
  df_columns :: "'v column list"

definition head :: "nat \<Rightarrow> 'v dataframe \<Rightarrow> 'v dataframe" where
  "head n df =
     \<lparr>df_len = min n (df_len df),
      df_columns = map (\<lambda>c. c\<lparr>col_cells := take n (col_cells c)\<rparr>) (df_columns df)\<rparr>"

definition select_dtypes_number :: "'v dataframe \<Rightarrow> 'v column list" where
  "select_dtypes_number df = filter (\<lambda>c. is_number (col_dtype c)) (df_columns df)"

definition isnull_sum :: "'v column \<Rightarrow> nat" where
  "isnull_sum c = length (filter (\<lambda>x. x = None) (col_cells c))"

subsection \<open>Documents, index entries, statistics\<close>

record document =
  filename :: string
  doc_type :: string
  content :: string
  chunks :: "string list"

record metadata =
  md_source :: string
  md_type :: string
  md_chunk :: nat
  md_total_chunks :: nat

record lc_document =
  page_content :: string
  doc_metadata :: metadata

record stats =
  total_rows :: nat
  total_documents :: nat
  total_chunks :: nat
  data_size_mb :: rat

record summary =
  sum_structured_files :: nat
  sum_total_rows :: nat
  sum_documents :: nat
  sum_chunks_indexed :: nat
  sum_data_size_mb :: rat
  sum_ready :: bool

record ('v, 'vs) warehouse =
  structured_data :: "(string \<times> 'v dataframe) list"
  documents :: "document list"
  vectorstore :: "'vs option"
  stats :: stats

subsection \<open>The libraries the warehouse calls\<close>

text \<open>
  \<^item> \<open>path_exists\<close>, \<open>listdir\<close>, \<open>read_text\<close>: \<open>os.path.exists\<close>, \<open>os.listdir\<close>, and opening and
    reading a file as UTF-8 text.
  \<^item> \<open>read_csv\<close>, \<open>read_excel\<close>, \<open>memory_usage\<close>: the pandas readers and
    \<open>df.memory_usage(deep=True).sum()\<close>.
  \<^item> \<open>pdf_reader\<close>: opening the file and building \<open>PyPDF2.PdfReader\<close>; the result lists, page
    by page, what \<open>page.extract_text()\<close> gives (\<open>None\<close> is the empty string here, both are
    false in Python).
  \<^item> \<open>docx_document\<close>: \<open>DocxDocument(file_path)\<close>, as the texts of its paragraphs and, for each
    table, each row, the texts of its cells.
  \<^item> \<open>fmt_mean\<close>, \<open>fmt_std\<close>, \<open>fmt_min\<close>, \<open>fmt_max\<close>: a column statistic printed with \<open>:.2f\<close>;
    \<open>fmt_percent count n\<close>: \<open>count/n*100\<close> printed with \<open>:.1f\<close>; \<open>to_string\<close>: \<open>df.to_string()\<close>.
    These are floating-point computations of pandas and stay uninterpreted.
  \<^item> \<open>split_text\<close>: \<open>RecursiveCharacterTextSplitter(chunk_size=1000, chunk_overlap=200,
    length_function=len, separators=["\n\n", "\n", " ", ""]).split_text\<close>.
  \<^item> \<open>from_texts\<close>: \<open>Chroma.from_texts\<close> with the embeddings of the warehouse and the directory
    \<open>./chroma_db\<close>; \<open>similarity_search\<close>: the method of the store it returned.
  \<^item> \<open>agent_run\<close>: \<open>create_pandas_dataframe_agent(...).run(question)\<close>; \<open>qa_chain\<close>: the
    \<open>RetrievalQA\<close> chain over the store with \<open>k = 5\<close>, giving \<open>result['result']\<close> and
    \<open>result['source_documents']\<close>; \<open>chat_completion system user\<close>: the chat completion of the
    OpenAI client, giving the content of the first choice.
  \<^item> \<open>set_order\<close>: the order in which Python iterates over \<open>set(xs)\<close>.

  Every index entry is built by \<open>_create_vector_index\<close>, so the metadata of a retrieved
  document has the four keys written there.
\<close>

record ('v, 'vs) env =
  path_exists :: "string \<Rightarrow> bool"
  listdir :: "string \<Rightarrow> exn + string list"
  read_text :: "string \<Rightarrow> exn + string"
  read_csv :: "string \<Rightarrow> exn + 'v dataframe"
  read_excel :: "string \<Rightarrow> exn + 'v dataframe"
  memory_usage :: "'v dataframe \<Rightarrow> nat"
  pdf_reader :: "string \<Rightarrow> exn + (exn + string) list"
  docx_document :: "string \<Rightarrow> exn + string list \<times> string list list list"
  fmt_mean :: "'v option list \<Rightarrow> string"
  fmt_std :: "'v option list \<Rightarrow> string"
  fmt_min :: "'v option list \<Rightarrow> string"
  fmt_max :: "'v option list \<Rightarrow> string"
  fmt_percent :: "nat \<Rightarrow> nat \<Rightarrow> string"
  to_string :: "'v dataframe \<Rightarrow> string"
  split_text :: "string \<Rightarrow> string list"
  from_texts :: "string list \<Rightarrow> metadata list \<Rightarrow> exn + 'vs"
  similarity_search :: "'vs \<Rightarrow> string \<Rightarrow> int \<Rightarrow> exn + lc_document list"
  agent_run :: "'v dataframe list \<Rightarrow> string \<Rightarrow> exn + string"
  qa_chain :: "'vs \<Rightarrow> string \<Rightarrow> exn + string \<times> lc_document list"
  chat_completion :: "string \<Rightarrow> string \<Rightarrow> exn + string"
  set_order :: "string list \<Rightarrow> string list"

subsection \<open>\<open>__init__\<close>\<close>

definition zero_stats :: stats where
  "zero_stats = \<lparr>total_rows = 0, total_documents = 0, total_chunks = 0, data_size_mb = 0\<rparr>"

definition init :: "('v, 'vs) warehouse" where
  "init = \<lparr>structured_data = [], documents = [], vectorstore = None, stats = zero_stats\<rparr>"

subsection \<open>\<open>_process_structured_data\<close>\<close>

text \<open>\<open>d[k] = v\<close> on a Python dict: a key already there keeps its place, a new one goes last.\<close>

fun dict_set :: "'k \<Rightarrow> 'a \<Rightarrow> ('k \<times> 'a) list \<Rightarrow> ('k \<times> 'a) list" where
  "dict_set k v [] = [(k, v)]"
| "dict_set k v (p # ps) = (if fst p = k then (k, v) # ps else p # dict_set k v ps)"

definition store_table ::
  "string \<Rightarrow> 'v dataframe \<Rightarrow> ('v, 'vs) warehouse \<Rightarrow> ('v, 'vs) warehouse" where
  "store_table file df ws =
     ws\<lparr>structured_data := dict_set file df (structured_data ws),
        stats := (stats ws)\<lparr>total_rows := total_rows (stats ws) + df_len df\<rparr>\<rparr>"

text \<open>The body of the loop over the files; a reader that raises leaves the warehouse as it is.\<close>

definition load_structured_file ::
  "('v, 'vs) env \<Rightarrow> string \<Rightarrow> ('v, 'vs) warehouse \<Rightarrow> string \<Rightarrow> ('v, 'vs) warehouse" where
  "load_structured_file env folder_path ws file =
     (if startswith file ''.'' then ws
      else let file_path = os_path_join folder_path file in
        if endswith file ''.csv'' then
          (case read_csv env file_path of
             Inl e \<Rightarrow> ws
           | Inr df \<Rightarrow> store_table file df ws)
        else if endswith file ''.xlsx'' \<or> endswith file ''.xls'' then
          (case read_excel env file_path of
             Inl e \<Rightarrow> ws
           | Inr df \<Rightarrow> store_table file df ws)
        else ws)"

definition add_data_size ::
  "('v, 'vs) env \<Rightarrow> ('v, 'vs) warehouse \<Rightarrow> 'v dataframe \<Rightarrow> ('v, 'vs) warehouse" where
  "add_data_size env ws df =
     ws\<lparr>stats := (stats ws)\<lparr>data_size_mb :=
        data_size_mb (stats ws) + of_nat (memory_usage env df) / 1024 ^ 2\<rparr>\<rparr>"

definition process_structured_data ::
  "('v, 'vs) env \<Rightarrow> string \<Rightarrow> ('v, 'vs) warehouse \<Rightarrow> exn + ('v, 'vs) warehouse" where
  "process_structured_data env folder_path ws =
     (case listdir env folder_path of
        Inl e \<Rightarrow> Inl e
      | Inr files \<Rightarrow>
          let ws1 = foldl (load_structured_file env folder_path) ws files
          in Inr (foldl (add_data_size env) ws1 (map snd (structured_data ws1))))"

subsection \<open>\<open>_parse_pdf\<close>, \<open>_parse_docx\<close>, \<open>_process_documents\<close>\<close>

text \<open>
  The loop over the pages, from page number \<open>page_num\<close> on: a page whose extraction raises ends
  the loop through the handler, and the text read so far is returned.
\<close>

fun pdf_pages :: "nat \<Rightarrow> (exn + string) list \<Rightarrow> string \<Rightarrow> string" where
  "pdf_pages page_num [] text = text"
| "pdf_pages page_num (Inl e # pages) text = text"
| "pdf_pages page_num (Inr page_text # pages) text =
     pdf_pages (page_num + 1) pages
       (if page_text \<noteq> [] then
          text @ nl @ ''--- Page '' @ str_nat (page_num + 1) @ '' ---'' @ nl @ page_text
        else text)"

definition parse_pdf :: "('v, 'vs) env \<Rightarrow> string \<Rightarrow> string" where
  "parse_pdf env file_path =
     (case pdf_reader env file_path of
        Inl e \<Rightarrow> []
      | Inr pages \<Rightarrow> pdf_pages 0 pages [])"

definition parse_docx :: "('v, 'vs) env \<Rightarrow> string \<Rightarrow> string" where
  "parse_docx env file_path =
     (case docx_document env file_path of
        Inl e \<Rightarrow> []
      | Inr (paragraphs, tables) \<Rightarrow>
          concat (map (\<lambda>paragraph. paragraph @ nl) paragraphs) @
          concat (map (\<lambda>table.
            concat (map (\<lambda>row. concat (map (\<lambda>cell. cell @ tab) row) @ nl) table)) tables))"

definition add_document ::
  "string \<Rightarrow> string \<Rightarrow> string \<Rightarrow> ('v, 'vs) warehouse \<Rightarrow> ('v, 'vs) warehouse" where
  "add_document file kind text ws =
     ws\<lparr>documents := documents ws @
          [\<lparr>filename = file, doc_type = kind, content = text, chunks = []\<rparr>],
        stats := (stats ws)\<lparr>total_documents := total_documents (stats ws) + 1\<rparr>\<rparr>"

definition parse_document_file ::
  "('v, 'vs) env \<Rightarrow> string \<Rightarrow> ('v, 'vs) warehouse \<Rightarrow> string \<Rightarrow> ('v, 'vs) warehouse" where
  "parse_document_file env folder_path ws file =
     (if startswith file ''.'' then ws
      else let file_path = os_path_join folder_path file in
        if endswith file ''.pdf'' then
          (let text = parse_pdf env file_path
           in if text \<noteq> [] then add_document file ''pdf'' text ws else ws)
        else if endswith file ''.docx'' then
          (let text = parse_docx env file_path
           in if text \<noteq> [] then add_document file ''docx'' text ws else ws)
        else if endswith file ''.txt'' then
          (case read_text env file_path of
             Inl e \<Rightarrow> ws
           | Inr text \<Rightarrow> if text \<noteq> [] then add_document file ''txt'' text ws else ws)
        else ws)"

definition process_documents ::
  "('v, 'vs) env \<Rightarrow> string \<Rightarrow> ('v, 'vs) warehouse \<Rightarrow> exn + ('v, 'vs) warehouse" where
  "process_documents env folder_path ws =
     (case listdir env folder_path of
        Inl e \<Rightarrow> Inl e
      | Inr files \<Rightarrow> Inr (foldl (parse_document_file env folder_path) ws files))"

subsection \<open>\<open>_create_dataset_description\<close>\<close>

text \<open>
  \<open>Series.value_counts()\<close> of pandas, as the describer uses it on \<open>df.dtypes\<close>: every value
  once, with the number of its occurrences, the most frequent first; values of equal frequency
  stay in the order of their first occurrence.
\<close>

definition first_seen :: "'a list \<Rightarrow> 'a list" where
  "first_seen xs = rev (remdups (rev xs))"

definition value_counts :: "'a list \<Rightarrow> ('a \<times> nat) list" where
  "value_counts xs =
     sort_key (\<lambda>p. - int (snd p)) (map (\<lambda>x. (x, count_list xs x)) (first_seen xs))"

definition stats_line :: "('v, 'vs) env \<Rightarrow> 'v column \<Rightarrow> string" where
  "stats_line env col =
     ''  '' @ col_name col @ '': mean='' @ fmt_mean env (col_cells col) @
     '', std='' @ fmt_std env (col_cells col) @
     '', min='' @ fmt_min env (col_cells col) @
     '', max='' @ fmt_max env (col_cells col)"

definition dtype_line :: "dtype \<times> nat \<Rightarrow> string" where
  "dtype_line p = ''  '' @ dtype_name (fst p) @ '': '' @ str_nat (snd p) @ '' columns''"

definition missing_line :: "('v, 'vs) env \<Rightarrow> 'v dataframe \<Rightarrow> string \<times> nat \<Rightarrow> string" where
  "missing_line env df p =
     ''  '' @ fst p @ '': '' @ str_nat (snd p) @
     '' ('' @ fmt_percent env (snd p) (df_len df) @ ''%)''"

definition description_parts :: "('v, 'vs) env \<Rightarrow> string \<Rightarrow> 'v dataframe \<Rightarrow> string list" where
  "description_parts env file df =
     (let parts0 =
        [''Dataset: '' @ file,
         ''Shape: '' @ str_nat (df_len df) @ '' rows '' @ times_sign @ '' '' @
           str_nat (length (df_columns df)) @ '' columns'',
         ''Columns: '' @ str_join '', '' (map col_name (df_columns df)),
         []];
        numeric_cols = select_dtypes_number df;
        parts1 =
          (if length numeric_cols > 0 then
             parts0 @ [''Summary Statistics:''] @ map (stats_line env) (take 10 numeric_cols)
           else parts0);
        parts2 = parts1 @ [nl @ ''Data Types:''] @
          map dtype_line (value_counts (map col_dtype (df_columns df)));
        missing = map (\<lambda>c. (col_name c, isnull_sum c)) (df_columns df);
        parts3 =
          (if sum_list (map snd missing) > 0 then
             parts2 @ [nl @ ''Missing Values:''] @
               map (missing_line env df) (filter (\<lambda>p. snd p > 0) missing)
           else parts2)
      in parts3 @ [nl @ ''Sample Data (first 3 rows):''] @ [to_string env (head 3 df)])"

definition create_dataset_description ::
  "('v, 'vs) env \<Rightarrow> string \<Rightarrow> 'v dataframe \<Rightarrow> string" where
  "create_dataset_description env file df = str_join nl (description_parts env file df)"

subsection \<open>\<open>_create_vector_index\<close>\<close>

text \<open>The two lists \<open>all_texts\<close> and \<open>all_metadatas\<close> grow together, one document at a time.\<close>

definition index_document ::
  "('v, 'vs) env \<Rightarrow> string list \<times> metadata list \<Rightarrow> document \<Rightarrow> string list \<times> metadata list" where
  "index_document env acc doc =
     (let chunks = split_text env (content doc)
      in (fst acc @ chunks,
          snd acc @ map (\<lambda>i. \<lparr>md_source = filename doc, md_type = ''document'',
                                md_chunk = i, md_total_chunks = length chunks\<rparr>)
                        [0..<length chunks]))"

definition index_table ::
  "('v, 'vs) env \<Rightarrow> string list \<times> metadata list \<Rightarrow> string \<times> 'v dataframe
     \<Rightarrow> string list \<times> metadata list" where
  "index_table env acc entry =
     (fst acc @ [create_dataset_description env (fst entry) (snd entry)],
      snd acc @ [\<lparr>md_source = fst entry, md_type = ''structured_data'',
                  md_chunk = 0, md_total_chunks = 1\<rparr>])"

definition index_inputs ::
  "('v, 'vs) env \<Rightarrow> ('v, 'vs) warehouse \<Rightarrow> string list \<times> metadata list" where
  "index_inputs env ws =
     foldl (index_table env) (foldl (index_document env) ([], []) (documents ws))
       (structured_data ws)"

definition create_vector_index ::
  "('v, 'vs) env \<Rightarrow> ('v, 'vs) warehouse \<Rightarrow> ('v, 'vs) warehouse" where
  "create_vector_index env ws =
     (let all_texts = fst (index_inputs env ws);
          all_metadatas = snd (index_inputs env ws);
          ws1 = ws\<lparr>documents :=
                  map (\<lambda>doc. doc\<lparr>chunks := split_text env (content doc)\<rparr>) (documents ws)\<rparr>
      in if all_texts \<noteq> [] then
           (case from_texts env all_texts all_metadatas of
              Inl e \<Rightarrow> ws1
            | Inr store \<Rightarrow>
                ws1\<lparr>vectorstore := Some store,
                    stats := (stats ws1)\<lparr>total_chunks := length all_texts\<rparr>\<rparr>)
         else ws1)"

subsection \<open>\<open>get_summary\<close> and \<open>process_all_data\<close>\<close>

text \<open>
  \<open>round(x, 2)\<close>: the nearest multiple of one hundredth, a tie going to the even one.
  The sizes are exact rationals here, where Python has floats.
\<close>

definition round_half_even :: "rat \<Rightarrow> int" where
  "round_half_even x =
     (let f = \<lfloor>x\<rfloor>; d = x - of_int f
      in if d < 1 / 2 then f else if d > 1 / 2 then f + 1
         else if even f then f else f + 1)"

definition round2 :: "rat \<Rightarrow> rat" where
  "round2 x = of_int (round_half_even (x * 100)) / 100"

definition get_summary :: "('v, 'vs) warehouse \<Rightarrow> summary" where
  "get_summary ws =
     \<lparr>sum_structured_files = length (structured_data ws),
      sum_total_rows = total_rows (stats ws),
      sum_documents = total_documents (stats ws),
      sum_chunks_indexed = total_chunks (stats ws),
      sum_data_size_mb = round2 (data_size_mb (stats ws)),
      sum_ready = (vectorstore ws \<noteq> None)\<rparr>"

text \<open>
  The result pairs what the call gives (\<open>Inr None\<close> for the return of \<open>None\<close>, \<open>Inl e\<close> for an
  exception that leaves the method) with the warehouse as the call leaves it.
\<close>

definition process_all_data ::
  "('v, 'vs) env \<Rightarrow> string \<Rightarrow> ('v, 'vs) warehouse
     \<Rightarrow> (exn + summary option) \<times> ('v, 'vs) warehouse" where
  "process_all_data env folder_path ws =
     (if \<not> path_exists env folder_path then (Inr None, ws)
      else
        let ws0 = ws\<lparr>stats := zero_stats\<rparr> in
        case process_structured_data env folder_path ws0 of
          Inl e \<Rightarrow> (Inl e, ws0)
        | Inr ws1 \<Rightarrow>
            (case process_documents env folder_path ws1 of
               Inl e \<Rightarrow> (Inl e, ws1)
             | Inr ws2 \<Rightarrow>
                 let ws3 = create_vector_index env ws2
                 in (Inr (Some (get_summary ws3)), ws3)))"

subsection \<open>The queries\<close>

text \<open>
  Each query gives its result together with the calls it made to the remote services, in
  order: the similarity search (which embeds the query), the agent, the retrieval chain and
  the chat completion.
\<close>

datatype call =
  SimilaritySearch string int
| AgentRun string
| QAChain string
| ChatCompletion string string

definition search ::
  "('v, 'vs) env \<Rightarrow> ('v, 'vs) warehouse \<Rightarrow> string \<Rightarrow> int
     \<Rightarrow> (exn + lc_document list) \<times> call list" where
  "search env ws query k =
     (case vectorstore ws of
        None \<Rightarrow> (Inr [], [])
      | Some store \<Rightarrow>
          (try_except (similarity_search env store query k) (\<lambda>e. Inr []),
           [SimilaritySearch query k]))"

definition ask_structured_data ::
  "('v, 'vs) env \<Rightarrow> ('v, 'vs) warehouse \<Rightarrow> string \<Rightarrow> (exn + string) \<times> call list" where
  "ask_structured_data env ws question =
     (if structured_data ws = [] then (Inr ''No structured data loaded.'', [])
      else
        let dfs = map snd (structured_data ws)
        in (try_except (agent_run env dfs question)
              (\<lambda>e. Inr (''Error analyzing structured data: '' @ e)),
            [AgentRun question]))"


definition table_summary :: "string \<times> 'v dataframe \<Rightarrow> string" where
  "table_summary entry =
     (let name = fst entry; df = snd entry;
          numeric_cols = map col_name (select_dtypes_number df)
      in ''**'' @ name @ ''**: '' @ str_nat (df_len df) @ '' rows, '' @
           str_nat (length (df_columns df)) @ '' columns'' @ nl @
         ''  Columns: '' @ str_join '', '' (take 5 (map col_name (df_columns df))) @
           (if length (df_columns df) > 5 then ''...'' else []) @ nl @
         ''  Numeric fields: '' @ str_join '', '' (take 5 numeric_cols) @
           (if length numeric_cols > 5 then ''...'' else []))"

definition get_structured_data_summary :: "('v, 'vs) warehouse \<Rightarrow> string" where
  "get_structured_data_summary ws =
     (if structured_data ws = [] then ''No structured data loaded.''
      else str_join nl (map table_summary (structured_data ws)))"

definition system_prompt :: "string \<Rightarrow> string" where
  "system_prompt full_context =
     ''You are a private equity analyst with access to company data and documents.'' @ nl @ nl @
     ''Based on this context:'' @ nl @ full_context @ nl @ nl @
     ''Provide specific, quantitative answers when possible. Cite sources when available.''"

definition ask_unified ::
  "('v, 'vs) env \<Rightarrow> ('v, 'vs) warehouse \<Rightarrow> string \<Rightarrow> (exn + string) \<times> call list" where
  "ask_unified env ws question =
     (let found =
        (if vectorstore ws \<noteq> None then
           (case search env ws question 3 of
              (Inl e, calls) \<Rightarrow> ([], calls)
            | (Inr relevant_docs, calls) \<Rightarrow>
                (if relevant_docs \<noteq> [] then
                   [''**Relevant document excerpts:**'' @ nl @
                      str_join nl (map (\<lambda>doc. take 500 (page_content doc)) relevant_docs)]
                 else [],
                 calls))
         else ([], []));
        context_parts =
          fst found @
          (if structured_data ws \<noteq> [] then
             [''**Available datasets:**'' @ nl @ get_structured_data_summary ws]
           else [])
      in if context_parts = [] then
           (Inr ''No data available to answer this question.'', snd found)
         else
           let full_context = str_join (nl @ nl) context_parts
           in (try_except (chat_completion env (system_prompt full_context) question)
                 (\<lambda>e. Inr (''Error generating response: '' @ e)),
               snd found @ [ChatCompletion (system_prompt full_context) question]))"

subsection \<open>A small folder\<close>

text \<open>
  The folder \<open>data\<close> holds a note, a table of two rows (three numeric columns and one
  column with a missing cell) and an empty text file; the folder \<open>empty\<close> holds nothing.
  The splitter keeps a short text whole, the store is written as the number of entries it
  was built from, and the remote services answer.
\<close>

definition demo_table :: "int dataframe" where
  "demo_table =
     \<lparr>df_len = 2,
      df_columns =
        [\<lparr>col_name = ''id'', col_dtype = Int64, col_cells = [Some 1, Some 2]\<rparr>,
         \<lparr>col_name = ''region'', col_dtype = Object, col_cells = [Some 7, None]\<rparr>,
         \<lparr>col_name = ''price'', col_dtype = Float64, col_cells = [Some 10, Some 12]\<rparr>,
         \<lparr>col_name = ''units'', col_dtype = Int64, col_cells = [Some 3, Some 4]\<rparr>]\<rparr>"

definition demo_hit :: lc_document where
  "demo_hit =
     \<lparr>page_content = ''hello'',
      doc_metadata = \<lparr>md_source = ''notes.txt'', md_type = ''document'',
                      md_chunk = 0, md_total_chunks = 1\<rparr>\<rparr>"

definition demo_env :: "(int, nat) env" where
  "demo_env =
     \<lparr>path_exists = (\<lambda>p. p = ''data'' \<or> p = ''empty''),
      listdir = (\<lambda>p. if p = ''data'' then Inr [''notes.txt'', ''sales.csv'', ''blank.txt'']
                      else if p = ''empty'' then Inr []
                      else Inl ''No such file or directory''),
      read_text = (\<lambda>p. if p = ''data/notes.txt'' then Inr ''hello''
                        else if p = ''data/blank.txt'' then Inr []
                        else Inl ''No such file or directory''),
      read_csv = (\<lambda>p. if p = ''data/sales.csv'' then Inr demo_table
                       else Inl ''No such file or directory''),
      read_excel = (\<lambda>p. Inl ''No such file or directory''),
      memory_usage = (\<lambda>df. 1048576),
      pdf_reader = (\<lambda>p. Inl ''No such file or directory''),
      docx_document = (\<lambda>p. Inl ''No such file or directory''),
      fmt_mean = (\<lambda>cells. ''1.00''),
      fmt_std = (\<lambda>cells. ''1.00''),
      fmt_min = (\<lambda>cells. ''1.00''),
      fmt_max = (\<lambda>cells. ''1.00''),
      fmt_percent = (\<lambda>count n. ''50.0''),
      to_string = (\<lambda>df. ''rows''),
      split_text = (\<lambda>text. if text = [] then [] else [text]),
      from_texts = (\<lambda>texts metadatas. Inr (length texts)),
      similarity_search = (\<lambda>store query k. Inr [demo_hit]),
      agent_run = (\<lambda>dfs question. Inr ''2 rows''),
      qa_chain = (\<lambda>store question. Inr (''An answer.'', [demo_hit, demo_hit])),
      chat_completion = (\<lambda>system user. Inr ''An answer.''),
      set_order = remdups\<rparr>"


text \<open>The same folder when the store, the agent and the chain fail at query time.\<close>

definition query_down_env :: "(int, nat) env" where
  "query_down_env =
     demo_env\<lparr>similarity_search := (\<lambda>store query k. Inl ''Connection error.''),
              agent_run := (\<lambda>dfs question. Inl ''Connection error.''),
              qa_chain := (\<lambda>store question. Inl ''Connection error.'')\<rparr>"

definition loaded :: "(int, nat) warehouse" where
  "loaded = snd (process_all_data demo_env ''data'' init)"

section \<open>Properties\<close>

subsection \<open>What the steps of ingestion leave alone\<close>

lemma load_structured_file_keeps:
  "vectorstore (load_structured_file env folder_path ws file) = vectorstore ws"
  "documents (load_structured_file env folder_path ws file) = documents ws"
  "total_chunks (stats (load_structured_file env folder_path ws file)) = total_chunks (stats ws)"
  by (simp_all add: load_structured_file_def store_table_def Let_def split: sum.splits)

lemma foldl_load_structured_file_keeps:
  "vectorstore (foldl (load_structured_file env folder_path) ws files) = vectorstore ws \<and>
   documents (foldl (load_structured_file env folder_path) ws files) = documents ws \<and>
   total_chunks (stats (foldl (load_structured_file env folder_path) ws files)) =
     total_chunks (stats ws)"
  by (induction files arbitrary: ws) (simp_all add: load_structured_file_keeps)

lemma foldl_add_data_size_keeps:
  "vectorstore (foldl (add_data_size env) ws dfs) = vectorstore ws \<and>
   documents (foldl (add_data_size env) ws dfs) = documents ws \<and>
   structured_data (foldl (add_data_size env) ws dfs) = structured_data ws \<and>
   total_chunks (stats (foldl (add_data_size env) ws dfs)) = total_chunks (stats ws)"
  by (induction dfs arbitrary: ws) (simp_all add: add_data_size_def)

lemma process_structured_data_keeps:
  assumes "process_structured_data env folder_path ws = Inr ws'"
  shows "vectorstore ws' = vectorstore ws \<and> documents ws' = documents ws \<and>
         total_chunks (stats ws') = total_chunks (stats ws)"
  using assms
  by (auto simp: process_structured_data_def Let_def foldl_add_data_size_keeps
      foldl_load_structured_file_keeps split: sum.splits)





subsection \<open>What the steps of ingestion add\<close>

lemma load_structured_file_total_documents:
  "total_documents (stats (load_structured_file env folder_path ws file)) =
     total_documents (stats ws)"
  by (simp add: load_structured_file_def store_table_def Let_def split: sum.splits)

lemma foldl_load_structured_file_total_documents:
  "total_documents (stats (foldl (load_structured_file env folder_path) ws files)) =
     total_documents (stats ws)"
  by (induction files arbitrary: ws) (simp_all add: load_structured_file_total_documents)

lemma foldl_add_data_size_stats:
  "stats (foldl (add_data_size env) ws dfs) =
     (stats ws)\<lparr>data_size_mb := data_size_mb (stats ws) +
        (\<Sum>df\<leftarrow>dfs. of_nat (memory_usage env df) / 1024 ^ 2)\<rparr>"
  by (induction dfs arbitrary: ws) (simp_all add: add_data_size_def add.assoc)

lemma process_structured_data_total_documents:
  assumes "process_structured_data env folder_path ws = Inr ws'"
  shows "total_documents (stats ws') = total_documents (stats ws)"
  using assms
  by (auto simp: process_structured_data_def Let_def foldl_add_data_size_stats
      foldl_load_structured_file_total_documents split: sum.splits)

text \<open>
  What a file adds to the list of documents does not depend on the warehouse: it is what it
  adds to the new warehouse.
\<close>

lemma parse_document_file_appends:
  "documents (parse_document_file env folder_path ws file) =
     documents ws @ documents (parse_document_file env folder_path init file) \<and>
   total_documents (stats (parse_document_file env folder_path ws file)) =
     total_documents (stats ws) +
     length (documents (parse_document_file env folder_path init file))"
  by (simp add: parse_document_file_def add_document_def init_def Let_def split: sum.splits)

lemma foldl_parse_document_file_appends:
  "documents (foldl (parse_document_file env folder_path) ws files) =
     documents ws @
     concat (map (\<lambda>f. documents (parse_document_file env folder_path init f)) files) \<and>
   total_documents (stats (foldl (parse_document_file env folder_path) ws files)) =
     total_documents (stats ws) +
     length (concat (map (\<lambda>f. documents (parse_document_file env folder_path init f)) files))"
proof (induction files arbitrary: ws)
  case Nil
  show ?case by simp
next
  case (Cons f files)
  show ?case
    using Cons [of "parse_document_file env folder_path ws f"]
      parse_document_file_appends [of env folder_path ws f]
    by simp
qed

lemma create_vector_index_documents:
  "documents (create_vector_index env ws) =
     map (\<lambda>doc. doc\<lparr>chunks := split_text env (content doc)\<rparr>) (documents ws) \<and>
   total_documents (stats (create_vector_index env ws)) = total_documents (stats ws)"
  by (simp add: create_vector_index_def Let_def split: sum.splits)

lemma create_vector_index_stats:
  "stats (create_vector_index env ws) =
     (if fst (index_inputs env ws) \<noteq> [] \<and>
         \<not> isl (from_texts env (fst (index_inputs env ws)) (snd (index_inputs env ws)))
      then (stats ws)\<lparr>total_chunks := length (fst (index_inputs env ws))\<rparr>
      else stats ws)"
  by (simp add: create_vector_index_def Let_def split: sum.splits)

lemma index_document_texts:
  "fst (foldl (index_document env) acc docs) =
     fst acc @ concat (map (\<lambda>doc. split_text env (content doc)) docs)"
  by (induction docs arbitrary: acc) (simp_all add: index_document_def Let_def)

lemma index_inputs_cong:
  assumes "documents ws = documents ws'" and "structured_data ws = structured_data ws'"
  shows "index_inputs env ws = index_inputs env ws'"
  using assms by (simp add: index_inputs_def)

text \<open>The documents a run leaves: those the warehouse held and those of the folder, chunked.\<close>

lemma run_documents:
  assumes "path_exists env folder_path" and "listdir env folder_path = Inr files"
  shows "documents (snd (process_all_data env folder_path ws)) =
           map (\<lambda>doc. doc\<lparr>chunks := split_text env (content doc)\<rparr>)
             (documents ws @
              concat (map (\<lambda>f. documents (parse_document_file env folder_path init f)) files)) \<and>
         total_documents (stats (snd (process_all_data env folder_path ws))) =
           length (concat (map (\<lambda>f. documents (parse_document_file env folder_path init f)) files))"
proof -
  let ?ws0 = "ws\<lparr>stats := zero_stats\<rparr>"
  obtain ws1 where s1: "process_structured_data env folder_path ?ws0 = Inr ws1"
    using assms(2) by (simp add: process_structured_data_def Let_def)
  let ?ws2 = "foldl (parse_document_file env folder_path) ws1 files"
  have s2: "process_documents env folder_path ws1 = Inr ?ws2"
    using assms(2) by (simp add: process_documents_def)
  have run: "snd (process_all_data env folder_path ws) = create_vector_index env ?ws2"
    using assms(1) s1 s2 by (simp add: process_all_data_def Let_def)
  have k1: "documents ws1 = documents ws" "total_documents (stats ws1) = 0"
    using process_structured_data_keeps [OF s1] process_structured_data_total_documents [OF s1]
    by (simp_all add: zero_stats_def)
  show ?thesis
    using run k1 foldl_parse_document_file_appends [of env folder_path ws1 files]
      create_vector_index_documents [of env ?ws2]
    by simp
qed

subsection \<open>File name suffixes\<close>

lemma endswith_last:
  assumes "endswith s suf" and "suf \<noteq> []"
  shows "last s = last suf"
proof -
  from assms have d: "drop (length s - length suf) s = suf" and "length suf \<le> length s"
    by (simp_all add: endswith_def)
  with assms(2) have "length s - length suf < length s"
    by (cases suf) auto
  then have "last (drop (length s - length suf) s) = last s"
    by (rule last_drop)
  with d show ?thesis by simp
qed

lemma document_is_no_table:
  assumes "endswith name ''.pdf'' \<or> endswith name ''.docx'' \<or> endswith name ''.txt''"
  shows "\<not> endswith name ''.csv'' \<and> \<not> endswith name ''.xlsx'' \<and> \<not> endswith name ''.xls''"
proof -
  have x: "\<not> (endswith name ''.docx'' \<and> endswith name ''.xlsx'')"
    by (auto simp: endswith_def)
  show ?thesis
    using assms x endswith_last [of name "''.pdf''"] endswith_last [of name "''.docx''"]
      endswith_last [of name "''.txt''"] endswith_last [of name "''.csv''"]
      endswith_last [of name "''.xlsx''"] endswith_last [of name "''.xls''"]
    by auto
qed

lemma suffixes_apart:
  "\<not> (endswith name ''.pdf'' \<and> endswith name ''.docx'')"
  "\<not> (endswith name ''.pdf'' \<and> endswith name ''.txt'')"
  "\<not> (endswith name ''.docx'' \<and> endswith name ''.txt'')"
  using endswith_last [of name "''.pdf''"] endswith_last [of name "''.docx''"]
      endswith_last [of name "''.txt''"]
  by auto

subsection \<open>A file that no step acts on can be taken out of the listing\<close>

lemma foldl_removeAll_neutral:
  assumes "\<And>s. f s x = s"
  shows "foldl f s (removeAll x xs) = foldl f s xs"
  by (induction xs arbitrary: s) (auto simp: assms)

lemma env_listdir_update_lines:
  "stats_line (env\<lparr>listdir := l\<rparr>) = stats_line env"
  "missing_line (env\<lparr>listdir := l\<rparr>) = missing_line env"
  by (simp_all add: fun_eq_iff stats_line_def missing_line_def)

lemma env_listdir_update_description:
  "create_dataset_description (env\<lparr>listdir := l\<rparr>) = create_dataset_description env"
proof -
  have "description_parts (env\<lparr>listdir := l\<rparr>) f df = description_parts env f df" for f df
  proof -
    have "to_string (env\<lparr>listdir := l\<rparr>) = to_string env"
      by simp
    then show ?thesis
      by (simp only: description_parts_def env_listdir_update_lines)
  qed
  then show ?thesis
    by (simp add: fun_eq_iff create_dataset_description_def)
qed

lemma env_listdir_update_index:
  "index_document (env\<lparr>listdir := l\<rparr>) = index_document env"
  "index_table (env\<lparr>listdir := l\<rparr>) = index_table env"
  by (simp_all add: fun_eq_iff index_document_def index_table_def
      env_listdir_update_description)

lemma env_listdir_update_steps:
  "load_structured_file (env\<lparr>listdir := l\<rparr>) = load_structured_file env"
  "parse_document_file (env\<lparr>listdir := l\<rparr>) = parse_document_file env"
  "add_data_size (env\<lparr>listdir := l\<rparr>) = add_data_size env"
  "create_vector_index (env\<lparr>listdir := l\<rparr>) = create_vector_index env"
  by (simp_all add: fun_eq_iff load_structured_file_def parse_document_file_def
      add_data_size_def create_vector_index_def index_inputs_def env_listdir_update_index
      parse_pdf_def parse_docx_def Let_def)

subsection \<open>The histogram of dtypes and the columns with missing cells\<close>





subsection \<open>The small folder, ingested\<close>


lemmas ingestion_defs =
  process_all_data_def process_structured_data_def process_documents_def
  load_structured_file_def parse_document_file_def store_table_def add_document_def
  add_data_size_def create_vector_index_def index_inputs_def index_document_def
  index_table_def get_summary_def round2_def round_half_even_def zero_stats_def
  startswith_def endswith_def os_path_join_def Let_def

lemma loaded_eq:
  "loaded =
     \<lparr>structured_data = [(''sales.csv'', demo_table)],
      documents = [\<lparr>filename = ''notes.txt'', doc_type = ''txt'', content = ''hello'',
                    chunks = [''hello'']\<rparr>],
      vectorstore = Some 2,
      stats = \<lparr>total_rows = 2, total_documents = 1, total_chunks = 2, data_size_mb = 1\<rparr>\<rparr>"
  by (simp add: loaded_def ingestion_defs demo_env_def init_def demo_table_def)

section \<open>The claims\<close>

text \<open>
  Claim C1 (re-ingestion). The claim says that ingesting the same folder twice in one session
  gives the same entry count and the same summary as the first ingestion, the second set of
  entries replacing the first. The code resets the statistics at the start of
  \<open>process_all_data\<close> but not the list \<open>documents\<close>, to which \<open>_process_documents\<close> appends.
  For every folder that exists and can be listed, after the second ingestion of a new
  warehouse the list of documents is the list after the first ingestion, twice over, while
  \<open>total_documents\<close> is still the length of the list after the first; and the chunks of the
  documents, which \<open>_create_vector_index\<close> hands to the store, are those of the first run twice
  over. On the small folder the first run reports \<open>chunks_indexed = 2\<close> and the second
  \<open>chunks_indexed = 3\<close>.
\<close>

theorem reingestion_holds_documents_twice:
  assumes "path_exists env folder_path" and "listdir env folder_path = Inr files"
  shows "documents (snd (process_all_data env folder_path
                      (snd (process_all_data env folder_path init)))) =
           documents (snd (process_all_data env folder_path init)) @
           documents (snd (process_all_data env folder_path init)) \<and>
         total_documents (stats (snd (process_all_data env folder_path
                      (snd (process_all_data env folder_path init))))) =
           length (documents (snd (process_all_data env folder_path init))) \<and>
         fst (foldl (index_document env) ([], [])
                (documents (snd (process_all_data env folder_path
                      (snd (process_all_data env folder_path init)))))) =
           fst (foldl (index_document env) ([], [])
                  (documents (snd (process_all_data env folder_path init)))) @
           fst (foldl (index_document env) ([], [])
                  (documents (snd (process_all_data env folder_path init))))"
proof -
  let ?ch = "\<lambda>doc. doc\<lparr>chunks := split_text env (content doc)\<rparr>"
  let ?new = "concat (map (\<lambda>f. documents (parse_document_file env folder_path init f)) files)"
  let ?ws1 = "snd (process_all_data env folder_path (init :: ('a, 'b) warehouse))"
  have d1: "documents ?ws1 = map ?ch ?new"
    using run_documents [OF assms, of init] by (simp add: init_def)
  have d2: "documents (snd (process_all_data env folder_path ?ws1)) = map ?ch ?new @ map ?ch ?new"
    using run_documents [OF assms, of ?ws1] d1 by (simp add: comp_def)
  have t2: "total_documents (stats (snd (process_all_data env folder_path ?ws1))) = length ?new"
    using run_documents [OF assms, of ?ws1] by simp
  show ?thesis
    unfolding d2 d1 index_document_texts using t2 by simp
qed

theorem reingestion_holds_documents_twice_witness:
  "path_exists demo_env ''data'' \<and>
   listdir demo_env ''data'' = Inr [''notes.txt'', ''sales.csv'', ''blank.txt''] \<and>
   fst (process_all_data demo_env ''data'' init) =
     Inr (Some \<lparr>sum_structured_files = 1, sum_total_rows = 2, sum_documents = 1,
                sum_chunks_indexed = 2, sum_data_size_mb = 1, sum_ready = True\<rparr>) \<and>
   snd (process_all_data demo_env ''data'' init) = loaded \<and>
   fst (process_all_data demo_env ''data'' loaded) =
     Inr (Some \<lparr>sum_structured_files = 1, sum_total_rows = 2, sum_documents = 1,
                sum_chunks_indexed = 3, sum_data_size_mb = 1, sum_ready = True\<rparr>) \<and>
   documents (snd (process_all_data demo_env ''data'' loaded)) =
     documents loaded @ documents loaded \<and>
   map filename (documents (snd (process_all_data demo_env ''data'' loaded))) =
     [''notes.txt'', ''notes.txt''] \<and>
   vectorstore loaded = Some 2 \<and>
   vectorstore (snd (process_all_data demo_env ''data'' loaded)) = Some 3"
proof -
  have p: "path_exists demo_env ''data''"
    and l: "listdir demo_env ''data'' = Inr [''notes.txt'', ''sales.csv'', ''blank.txt'']"
    by (simp_all add: demo_env_def)
  have r1: "fst (process_all_data demo_env ''data'' init) =
     Inr (Some \<lparr>sum_structured_files = 1, sum_total_rows = 2, sum_documents = 1,
                sum_chunks_indexed = 2, sum_data_size_mb = 1, sum_ready = True\<rparr>)"
    by (simp add: ingestion_defs demo_env_def init_def demo_table_def)
  have s1: "snd (process_all_data demo_env ''data'' init) = loaded"
    by (simp add: loaded_def)
  have r2: "process_all_data demo_env ''data'' loaded =
     (Inr (Some \<lparr>sum_structured_files = 1, sum_total_rows = 2, sum_documents = 1,
                 sum_chunks_indexed = 3, sum_data_size_mb = 1, sum_ready = True\<rparr>),
      \<lparr>structured_data = [(''sales.csv'', demo_table)],
       documents = [\<lparr>filename = ''notes.txt'', doc_type = ''txt'', content = ''hello'',
                     chunks = [''hello'']\<rparr>,
                    \<lparr>filename = ''notes.txt'', doc_type = ''txt'', content = ''hello'',
                     chunks = [''hello'']\<rparr>],
       vectorstore = Some 3,
       stats = \<lparr>total_rows = 2, total_documents = 1, total_chunks = 3, data_size_mb = 1\<rparr>\<rparr>)"
    by (simp add: loaded_eq ingestion_defs demo_env_def demo_table_def)
  have twice: "documents (snd (process_all_data demo_env ''data'' loaded)) =
                 documents loaded @ documents loaded"
    using reingestion_holds_documents_twice [OF p l] by (simp add: s1)
  have v: "vectorstore loaded = Some 2"
    by (simp add: loaded_eq)
  have names: "map filename (documents (snd (process_all_data demo_env ''data'' loaded))) =
                 [''notes.txt'', ''notes.txt'']"
    by (simp add: r2)
  have v2: "vectorstore (snd (process_all_data demo_env ''data'' loaded)) = Some 3"
    by (simp add: r2)
  have r2': "fst (process_all_data demo_env ''data'' loaded) =
     Inr (Some \<lparr>sum_structured_files = 1, sum_total_rows = 2, sum_documents = 1,
                sum_chunks_indexed = 3, sum_data_size_mb = 1, sum_ready = True\<rparr>)"
    by (simp add: r2)
  show ?thesis
    using p l r1 s1 r2' twice names v v2 by blast
qed




text \<open>
  Claim C3 (statistics of a run). The claim says that after a run every counter depends on
  the contents of the folder of that run alone. \<open>total_rows\<close> and \<open>total_documents\<close> are counted
  from the files of the folder, but \<open>total_chunks\<close> counts the index inputs built from every
  document and table the warehouse holds, and \<open>data_size_mb\<close> adds up every table it holds;
  \<open>process_all_data\<close> clears neither \<open>documents\<close> nor \<open>structured_data\<close>. So after ingesting
  a folder without files, \<open>total_chunks\<close> and \<open>data_size_mb\<close> are those of what the warehouse
  held before the run: all counters are 0 in a new warehouse, but \<open>total_chunks = 2\<close> and
  \<open>data_size_mb = 1\<close> in the warehouse that ingested the small folder before.
\<close>

theorem counters_of_an_empty_folder:
  assumes "path_exists env folder_path" and "listdir env folder_path = Inr []"
  shows "stats (snd (process_all_data env folder_path ws)) =
           \<lparr>total_rows = 0, total_documents = 0,
            total_chunks =
              (if fst (index_inputs env ws) \<noteq> [] \<and>
                  \<not> isl (from_texts env (fst (index_inputs env ws)) (snd (index_inputs env ws)))
               then length (fst (index_inputs env ws)) else 0),
            data_size_mb =
              (\<Sum>df\<leftarrow>map snd (structured_data ws). of_nat (memory_usage env df) / 1024 ^ 2)\<rparr>"
proof -
  let ?ws0 = "ws\<lparr>stats := zero_stats\<rparr>"
  let ?ws1 = "foldl (add_data_size env) ?ws0 (map snd (structured_data ws))"
  have run: "snd (process_all_data env folder_path ws) = create_vector_index env ?ws1"
    using assms
    by (simp add: process_all_data_def process_structured_data_def process_documents_def Let_def)
  have i: "index_inputs env ?ws1 = index_inputs env ws"
    by (rule index_inputs_cong) (simp_all add: foldl_add_data_size_keeps)
  show ?thesis
    unfolding run create_vector_index_stats i foldl_add_data_size_stats
    by (simp add: zero_stats_def)
qed

theorem counters_of_an_empty_folder_witness:
  "path_exists demo_env ''empty'' \<and> listdir demo_env ''empty'' = Inr [] \<and>
   stats (snd (process_all_data demo_env ''empty'' init)) =
     \<lparr>total_rows = 0, total_documents = 0, total_chunks = 0, data_size_mb = 0\<rparr> \<and>
   stats (snd (process_all_data demo_env ''empty'' loaded)) =
     \<lparr>total_rows = 0, total_documents = 0, total_chunks = 2, data_size_mb = 1\<rparr>"
proof -
  have p: "path_exists demo_env ''empty''" and l: "listdir demo_env ''empty'' = Inr []"
    by (simp_all add: demo_env_def)
  have i0: "index_inputs demo_env init = ([], [])"
    by (simp add: index_inputs_def init_def)
  have i1: "length (fst (index_inputs demo_env loaded)) = 2"
    by (simp add: index_inputs_def loaded_eq index_document_def index_table_def demo_env_def)
  have f: "\<not> isl (from_texts demo_env texts metadatas)" for texts metadatas
    by (simp add: demo_env_def)
  have m: "memory_usage demo_env df = 1048576" for df
    by (simp add: demo_env_def)
  have "stats (snd (process_all_data demo_env ''empty'' init)) =
     \<lparr>total_rows = 0, total_documents = 0, total_chunks = 0, data_size_mb = 0\<rparr>"
    using counters_of_an_empty_folder [OF p l, of init] i0 by (simp add: init_def)
  moreover have "stats (snd (process_all_data demo_env ''empty'' loaded)) =
     \<lparr>total_rows = 0, total_documents = 0, total_chunks = 2, data_size_mb = 1\<rparr>"
  proof -
    have "fst (index_inputs demo_env loaded) \<noteq> []"
      using i1 by auto
    then show ?thesis
      using counters_of_an_empty_folder [OF p l, of loaded] i1 f m by (simp add: loaded_eq)
  qed
  ultimately show ?thesis using p l by simp
qed

text \<open>
  Claim C4 (no data). When the warehouse holds no index and no table, \<open>ask_unified\<close> returns
  the fixed message and calls no remote service, whatever the question.
\<close>

theorem ask_unified_no_data:
  assumes "vectorstore ws = None" and "structured_data ws = []"
  shows "ask_unified env ws question =
           (Inr ''No data available to answer this question.'', [])"
  using assms by (simp add: ask_unified_def)

theorem ask_unified_no_data_witness:
  "vectorstore (init :: (int, nat) warehouse) = None \<and>
   structured_data (init :: (int, nat) warehouse) = [] \<and>
   ask_unified demo_env init ''What is the projected IRR?'' =
     (Inr ''No data available to answer this question.'', [])"
  using ask_unified_no_data [of "init :: (int, nat) warehouse" demo_env
      "''What is the projected IRR?''"]
  by (simp add: init_def)

text \<open>
  Claim C5 (retrieval degrades). \<open>search\<close> returns the empty list, without calling the store,
  when the warehouse holds no index; it returns the empty list when the similarity search of
  the store raises; and on every input it returns a list, never an exception.
\<close>

theorem search_degrades_to_empty:
  "(vectorstore ws = None \<longrightarrow> search env ws query k = (Inr [], [])) \<and>
   (vectorstore ws = Some store \<and> similarity_search env store query k = Inl e \<longrightarrow>
      fst (search env ws query k) = Inr []) \<and>
   (\<exists>docs. fst (search env ws query k) = Inr docs)"
proof (cases "vectorstore ws")
  case None
  then show ?thesis by (simp add: search_def)
next
  case (Some st)
  then show ?thesis
    by (cases "similarity_search env st query k") (simp_all add: search_def try_except_def)
qed

theorem search_degrades_to_empty_witness:
  "vectorstore (init :: (int, nat) warehouse) = None \<and>
   search demo_env init ''irr'' 5 = (Inr [], []) \<and>
   vectorstore loaded = Some 2 \<and>
   similarity_search query_down_env 2 ''irr'' 5 = Inl ''Connection error.'' \<and>
   fst (search query_down_env loaded ''irr'' 5) = Inr []"
  using search_degrades_to_empty [of "init :: (int, nat) warehouse" demo_env "''irr''" 5]
    search_degrades_to_empty [of loaded query_down_env "''irr''" 5 2 "''Connection error.''"]
  by (simp add: init_def loaded_eq query_down_env_def demo_env_def)



text \<open>
  Claim C8 (the tabular reasoner). \<open>ask_structured_data\<close> returns the fixed message, without
  calling the agent, when no table is loaded; when tables are loaded and the agent raises, it
  returns the text of the error; and on every input it returns a text, never an exception.
\<close>

theorem ask_structured_data_returns_text:
  "(structured_data ws = [] \<longrightarrow>
      ask_structured_data env ws question = (Inr ''No structured data loaded.'', [])) \<and>
   (structured_data ws \<noteq> [] \<and>
    agent_run env (map snd (structured_data ws)) question = Inl e \<longrightarrow>
      fst (ask_structured_data env ws question) =
        Inr (''Error analyzing structured data: '' @ e)) \<and>
   (\<exists>text. fst (ask_structured_data env ws question) = Inr text)"
  by (cases "agent_run env (map snd (structured_data ws)) question")
     (simp_all add: ask_structured_data_def try_except_def Let_def)

theorem ask_structured_data_returns_text_witness:
  "structured_data (init :: (int, nat) warehouse) = [] \<and>
   ask_structured_data demo_env init ''How many rows?'' =
     (Inr ''No structured data loaded.'', []) \<and>
   structured_data loaded \<noteq> [] \<and>
   agent_run query_down_env (map snd (structured_data loaded)) ''How many rows?'' =
     Inl ''Connection error.'' \<and>
   fst (ask_structured_data query_down_env loaded ''How many rows?'') =
     Inr ''Error analyzing structured data: Connection error.''"
  using ask_structured_data_returns_text [of "init :: (int, nat) warehouse" demo_env
      "''How many rows?''"]
    ask_structured_data_returns_text [of loaded query_down_env "''How many rows?''"
      "''Connection error.''"]
  by (simp add: init_def loaded_eq query_down_env_def demo_env_def)



text \<open>
  Claim C10 (files without text). A file whose parser gives the empty text (a PDF or a Word
  file from which nothing is extracted, an empty text file) leaves the warehouse as it is when
  \<open>_process_documents\<close> comes to it: no document record, no increment of \<open>total_documents\<close>.
  The whole ingestion runs as it does on the folder without that file: same result, same
  warehouse, hence the same index entries.
\<close>

theorem empty_text_file_is_omitted:
  assumes "endswith file ''.pdf'' \<and> parse_pdf env (os_path_join folder_path file) = [] \<or>
           endswith file ''.docx'' \<and> parse_docx env (os_path_join folder_path file) = [] \<or>
           endswith file ''.txt'' \<and> read_text env (os_path_join folder_path file) = Inr []"
  shows "parse_document_file env folder_path ws file = ws \<and>
         process_all_data env folder_path ws =
           process_all_data
             (env\<lparr>listdir := \<lambda>p. map_sum id (removeAll file) (listdir env p)\<rparr>) folder_path ws"
proof -
  have doc: "parse_document_file env folder_path s file = s" for s
    using assms suffixes_apart [of "file"]
    by (auto simp: parse_document_file_def Let_def)
  have "endswith file ''.pdf'' \<or> endswith file ''.docx'' \<or> endswith file ''.txt''"
    using assms by blast
  then have tab: "load_structured_file env folder_path s file = s" for s
    using document_is_no_table [of "file"] by (simp add: load_structured_file_def Let_def)
  let ?env = "env\<lparr>listdir := \<lambda>p. map_sum id (removeAll file) (listdir env p)\<rparr>"
  have a: "process_structured_data ?env folder_path s = process_structured_data env folder_path s"
    for s
    by (cases "listdir env folder_path")
       (simp_all add: process_structured_data_def env_listdir_update_steps
          foldl_removeAll_neutral [of "load_structured_file env folder_path" "file", OF tab])
  have b: "process_documents ?env folder_path s = process_documents env folder_path s" for s
    by (cases "listdir env folder_path")
       (simp_all add: process_documents_def env_listdir_update_steps
          foldl_removeAll_neutral [of "parse_document_file env folder_path" "file", OF doc])
  have "process_all_data ?env folder_path ws = process_all_data env folder_path ws"
    by (simp add: process_all_data_def a b env_listdir_update_steps Let_def split: sum.splits)
  with doc show ?thesis by simp
qed

theorem empty_text_file_is_omitted_witness:
  "endswith ''blank.txt'' ''.txt'' \<and>
   read_text demo_env (os_path_join ''data'' ''blank.txt'') = Inr [] \<and>
   parse_document_file demo_env ''data'' loaded ''blank.txt'' = loaded \<and>
   process_all_data demo_env ''data'' init =
     process_all_data
       (demo_env\<lparr>listdir := \<lambda>p. map_sum id (removeAll ''blank.txt'') (listdir demo_env p)\<rparr>)
       ''data'' init"
proof -
  have h: "endswith ''blank.txt'' ''.txt'' \<and>
           read_text demo_env (os_path_join ''data'' ''blank.txt'') = Inr []"
    by (simp add: endswith_def demo_env_def os_path_join_def startswith_def)
  then show ?thesis
    using empty_text_file_is_omitted [of "''blank.txt''" demo_env "''data''" loaded]
      empty_text_file_is_omitted [of "''blank.txt''" demo_env "''data''" init]
    by simp
qed

end
